theory Spec2Isabelle
  imports Complex_Main
begin

section \<open>JavaScript values used by the two components\<close>

text \<open>
  Strings are lists of Isabelle's 8-bit characters, read as the code units
  U+0000 .. U+00FF. Within that range \<open>String.prototype.trim\<close> strips TAB, LF, VT, FF,
  CR, SPACE and NBSP, and \<open>String.prototype.toLowerCase\<close> moves A-Z and the Latin-1
  capitals (U+00C0 .. U+00DE without U+00D7) up by 32.
\<close>

definition is_ws :: "char \<Rightarrow> bool" where
  "is_ws c = (let n = (of_char c :: nat) in (9 \<le> n \<and> n \<le> 13) \<or> n = 32 \<or> n = 160)"

definition trim :: "string \<Rightarrow> string" where
  "trim s = rev (dropWhile is_ws (rev (dropWhile is_ws s)))"

definition lower_char :: "char \<Rightarrow> char" where
  "lower_char c =
     (let n = (of_char c :: nat)
      in if (65 \<le> n \<and> n \<le> 90) \<or> (192 \<le> n \<and> n \<le> 214) \<or> (216 \<le> n \<and> n \<le> 222)
         then char_of (n + 32) else c)"

definition toLowerCase :: "string \<Rightarrow> string" where
  "toLowerCase s = map lower_char s"

text \<open>Decimal rendering of a number inside a template string.\<close>

definition digit_char :: "nat \<Rightarrow> char" where
  "digit_char d = char_of (48 + d)"

fun show_nat :: "nat \<Rightarrow> string" where
  "show_nat n = (if n < 10 then [digit_char n] else show_nat (n div 10) @ [digit_char (n mod 10)])"

declare show_nat.simps [simp del]

text \<open>\<open>Array.prototype.join\<close> on an array of strings.\<close>

fun join :: "string \<Rightarrow> string list \<Rightarrow> string" where
  "join sep [] = []"
| "join sep [x] = x"
| "join sep (x # y # ys) = x @ sep @ join sep (y # ys)"

text \<open>Parsed JSON payloads; the components store them without looking inside.\<close>

datatype json =
    JNull
  | JBool bool
  | JNum real
  | JStr string
  | JArr "json list"
  | JObj "(string \<times> json) list"

text \<open>A thrown value as the \<open>catch\<close> clauses read it: \<open>err.name\<close> and \<open>err.message\<close>.\<close>

record js_error =
  ename :: string
  emessage :: string

text \<open>
  What awaiting a promise gives: it settles after so many milliseconds, fulfilled
  (\<open>Inr\<close>) or rejected (\<open>Inl\<close>, the thrown error), or it never settles and the
  \<open>await\<close> never returns.
\<close>

datatype 'a awaited = Settles nat 'a | Never

text \<open>
  A response as the components read it: \<open>response.status\<close>, and what awaiting
  \<open>response.json()\<close> gives: the parsed body, the error it throws, or nothing when the
  body never ends. \<open>fetch\<close> resolves with the response once its head has arrived.
\<close>

record http_response =
  http_status :: nat
  body_json :: "(js_error + json) awaited"

definition response_ok :: "http_response \<Rightarrow> bool" where
  "response_ok r = (200 \<le> http_status r \<and> http_status r \<le> 299)"

text \<open>
  Truthiness, and reading a property of a parsed body (\<open>data.providers\<close>): \<open>null\<close>
  throws a \<open>TypeError\<close>, an object gives the entry, any other value gives \<open>undefined\<close>.
\<close>

fun truthy :: "json \<Rightarrow> bool" where
  "truthy JNull = False"
| "truthy (JBool b) = b"
| "truthy (JNum n) = (n \<noteq> 0)"
| "truthy (JStr s) = (s \<noteq> [])"
| "truthy (JArr _) = True"
| "truthy (JObj _) = True"

definition get_prop :: "string \<Rightarrow> json \<Rightarrow> js_error + json option" where
  "get_prop k v =
     (case v of
        JNull \<Rightarrow> Inl \<lparr>ename = ''TypeError'', emessage = ''Cannot read properties of null''\<rparr>
      | JObj kvs \<Rightarrow> Inr (map_of kvs k)
      | _ \<Rightarrow> Inr None)"

text \<open>\<open>x || []\<close>.\<close>

definition or_empty :: "json option \<Rightarrow> json" where
  "or_empty x = (case x of None \<Rightarrow> JArr [] | Some v \<Rightarrow> if truthy v then v else JArr [])"

section \<open>MultiAgentChat: data model\<close>

text \<open>
  A message timestamp is either the string the server sent or
  \<open>new Date().toISOString()\<close> of the clock reading (milliseconds) at receipt.
\<close>

datatype tstamp = ServerTime string | ClientTime nat

text \<open>
  The entries of the \<open>messages\<close> array, one constructor per value of their \<open>type\<close>
  field: \<open>system\<close> (content), \<open>agent\<close> (sender, content), \<open>error\<close> (content),
  \<open>action\<close> (action, result, success) and \<open>user\<close> (content); the timestamp is last.
  A field the envelope did not carry is \<open>None\<close> (\<open>undefined\<close>).
\<close>

datatype chat_message =
    SystemMsg string tstamp
  | AgentMsg "string option" "json option" tstamp
  | ErrorMsg string tstamp
  | ActionMsg "json option" "json option" "json option" tstamp
  | UserMsg string tstamp

fun msg_type :: "chat_message \<Rightarrow> string" where
  "msg_type (SystemMsg _ _) = ''system''"
| "msg_type (AgentMsg _ _ _) = ''agent''"
| "msg_type (ErrorMsg _ _) = ''error''"
| "msg_type (ActionMsg _ _ _ _) = ''action''"
| "msg_type (UserMsg _ _) = ''user''"

text \<open>
  An inbound envelope after \<open>JSON.parse\<close>: the \<open>type\<close> discriminator and the fields the
  handler reads, typed as the session transport declares them. An absent field is \<open>None\<close>.
\<close>

record inbound =
  etype :: string
  sender :: "string option"
  content :: "json option"
  timestamp :: "string option"
  agent :: "string option"
  status :: "string option"
  message :: "string option"
  agents :: "string list option"
  action :: "json option"
  result :: "json option"
  success :: "json option"

text \<open>The envelopes the client sends.\<close>

datatype outbound =
    StartSessionEnv "string list"
  | UserMessageEnv string
  | EndSessionEnv

datatype ready_state = CONNECTING | OPEN | CLOSING | CLOSED

record socket =
  url :: string
  readyState :: ready_state

text \<open>The calls made on the transport, in the order they are made.\<close>

datatype wire_call =
    WsNew nat string
  | WsSend nat outbound
  | WsClose nat

text \<open>
  The component state: the \<open>useState\<close> cells under their source names, \<open>wsRef\<close> as the
  index of the current socket in \<open>sockets\<close> (every socket the component created, with
  its ready state), the transport calls made so far, and the pending \<open>setTimeout\<close>
  callbacks of \<open>startSession\<close>, each with the agent list its closure captured.
  \<open>agentStatuses\<close> is only ever read by key, so the object is the function from key
  to value, \<open>None\<close> where reading gives \<open>undefined\<close>.
\<close>

record chat_state =
  messages :: "chat_message list"
  inputValue :: string
  selectedAgents :: "string list"
  isConnected :: bool
  isConnecting :: bool
  agentStatuses :: "string \<Rightarrow> string option"
  providers :: json
  sessionId :: "string option"
  error :: "string option"
  wsRef :: "nat option"
  sockets :: "socket list"
  wire :: "wire_call list"
  timers :: "string list list"

definition AUTOGEN_WS_URL :: string where
  "AUTOGEN_WS_URL = ''ws://localhost:8000/ws/chat''"

definition AUTOGEN_API_URL :: string where
  "AUTOGEN_API_URL = ''http://localhost:8000/api/v1''"

definition initial_chat :: chat_state where
  "initial_chat =
     \<lparr>messages = [], inputValue = [], selectedAgents = [''gemini'', ''claude''],
      isConnected = False, isConnecting = False, agentStatuses = (\<lambda>k. None),
      providers = JArr [], sessionId = None, error = None, wsRef = None, sockets = [],
      wire = [], timers = []\<rparr>"

text \<open>\<open>wsRef.current?.readyState\<close>: \<open>None\<close> when \<open>wsRef.current\<close> is null.\<close>

definition ref_state :: "chat_state \<Rightarrow> ready_state option" where
  "ref_state s =
     (case wsRef s of
        None \<Rightarrow> None
      | Some i \<Rightarrow> if i < length (sockets s) then Some (readyState (sockets s ! i)) else None)"

definition set_ready :: "nat \<Rightarrow> ready_state \<Rightarrow> chat_state \<Rightarrow> chat_state" where
  "set_ready i r s =
     (if i < length (sockets s)
      then s\<lparr>sockets := (sockets s)[i := (sockets s ! i)\<lparr>readyState := r\<rparr>]\<rparr>
      else s)"

section \<open>MultiAgentChat: inbound dispatch\<close>

text \<open>
  The computed key \<open>[x?.toLowerCase()]\<close>: an absent field makes the key the string
  \<open>undefined\<close>.
\<close>

definition agent_key :: "string option \<Rightarrow> string" where
  "agent_key x = (case x of None \<Rightarrow> ''undefined'' | Some a \<Rightarrow> toLowerCase a)"

text \<open>\<open>x || fallback\<close> on an optional string: absent and empty are both falsy.\<close>

definition or_else :: "string option \<Rightarrow> string \<Rightarrow> string" where
  "or_else x d = (case x of None \<Rightarrow> d | Some v \<Rightarrow> if v = [] then d else v)"

definition agents_text :: "string list option \<Rightarrow> string" where
  "agents_text x = (case x of None \<Rightarrow> ''undefined'' | Some xs \<Rightarrow> join '', '' xs)"

text \<open>\<open>handleWebSocketMessage\<close>; \<open>now\<close> is the clock reading when the envelope arrives.\<close>

definition handleWebSocketMessage :: "nat \<Rightarrow> inbound \<Rightarrow> chat_state \<Rightarrow> chat_state" where
  "handleWebSocketMessage now d s =
     (if etype d = ''message'' then
        s\<lparr>messages := messages s @
             [AgentMsg (sender d) (content d)
                (case timestamp d of
                   None \<Rightarrow> ClientTime now
                 | Some t \<Rightarrow> if t = [] then ClientTime now else ServerTime t)],
          agentStatuses := (agentStatuses s)(agent_key (sender d) := Some ''idle'')\<rparr>
      else if etype d = ''status'' then
        s\<lparr>agentStatuses := (agentStatuses s)(agent_key (agent d) := status d)\<rparr>
      else if etype d = ''error'' then
        s\<lparr>messages := messages s @
             [ErrorMsg (or_else (message d) ''Unknown error'') (ClientTime now)]\<rparr>
      else if etype d = ''session_started'' then
        s\<lparr>messages := messages s @
             [SystemMsg (''Session started with agents: '' @ agents_text (agents d))
                (ClientTime now)]\<rparr>
      else if etype d = ''action_result'' then
        s\<lparr>messages := messages s @
             [ActionMsg (action d) (result d) (success d) (ClientTime now)]\<rparr>
      else s)"

text \<open>
  \<open>ws.onmessage\<close>: a payload that \<open>JSON.parse\<close> rejects (\<open>None\<close>) is logged and dropped.
\<close>

definition ws_onmessage :: "nat \<Rightarrow> inbound option \<Rightarrow> chat_state \<Rightarrow> chat_state" where
  "ws_onmessage now raw s =
     (case raw of None \<Rightarrow> s | Some d \<Rightarrow> handleWebSocketMessage now d s)"

text \<open>A sequence of envelopes, each with the clock reading at its arrival.\<close>

fun dispatch_all :: "(nat \<times> inbound) list \<Rightarrow> chat_state \<Rightarrow> chat_state" where
  "dispatch_all [] s = s"
| "dispatch_all ((now, d) # rest) s = dispatch_all rest (handleWebSocketMessage now d s)"

text \<open>The four envelope types whose case appends to the log.\<close>

definition appends_entry :: "inbound \<Rightarrow> bool" where
  "appends_entry d =
     (etype d = ''message'' \<or> etype d = ''error'' \<or> etype d = ''session_started''
      \<or> etype d = ''action_result'')"

text \<open>The \<open>type\<close> of the log entry that the case of an appending envelope builds.\<close>

definition rendered_as :: "inbound \<Rightarrow> string" where
  "rendered_as d =
     (if etype d = ''message'' then ''agent''
      else if etype d = ''error'' then ''error''
      else if etype d = ''session_started'' then ''system''
      else ''action'')"

section \<open>MultiAgentChat: connection lifecycle\<close>

text \<open>
  \<open>fetchProviders\<close>, given the response or failure its request to
  \<open>AUTOGEN_API_URL/providers\<close> ended with: a failure, a response that is not ok and a
  body that cannot be read leave the list as it is, and so does a body that never ends
  (the function then never gets to \<open>setProviders\<close>).
\<close>

definition fetchProviders :: "js_error + http_response \<Rightarrow> chat_state \<Rightarrow> chat_state" where
  "fetchProviders outcome s =
     (case outcome of
        Inl err \<Rightarrow> s
      | Inr response \<Rightarrow>
          if response_ok response then
            (case body_json response of
               Never \<Rightarrow> s
             | Settles d (Inl err) \<Rightarrow> s
             | Settles d (Inr data) \<Rightarrow>
                 (case get_prop ''providers'' data of
                    Inl err \<Rightarrow> s
                  | Inr v \<Rightarrow> s\<lparr>providers := or_empty v\<rparr>))
          else s)"

text \<open>
  \<open>ws.send\<close> and \<open>ws.close\<close>. Every call site of \<open>send\<close> tests
  \<open>readyState === WebSocket.OPEN\<close> first, so \<open>send\<close> is only modelled there.
  \<open>close()\<close> moves a connecting or open socket to \<open>CLOSING\<close> and leaves a closing or
  closed one as it is.
\<close>

definition ws_send :: "nat \<Rightarrow> outbound \<Rightarrow> chat_state \<Rightarrow> chat_state" where
  "ws_send i env s = s\<lparr>wire := wire s @ [WsSend i env]\<rparr>"

definition ws_close :: "nat \<Rightarrow> chat_state \<Rightarrow> chat_state" where
  "ws_close i s =
     (let s1 = s\<lparr>wire := wire s @ [WsClose i]\<rparr>
      in if i < length (sockets s)
            \<and> (readyState (sockets s ! i) = CONNECTING \<or> readyState (sockets s ! i) = OPEN)
         then set_ready i CLOSING s1 else s1)"

text \<open>\<open>connect\<close>; \<open>now\<close> is \<open>Date.now()\<close>.\<close>

definition connect :: "nat \<Rightarrow> chat_state \<Rightarrow> chat_state" where
  "connect now s =
     (if ref_state s = Some OPEN then s
      else
        let newSessionId = ''claude-ui-'' @ show_nat now;
            target = AUTOGEN_WS_URL @ ''/'' @ newSessionId;
            i = length (sockets s)
        in s\<lparr>isConnecting := True, error := None, sessionId := Some newSessionId,
              sockets := sockets s @ [\<lparr>url = target, readyState = CONNECTING\<rparr>],
              wire := wire s @ [WsNew i target],
              wsRef := Some i\<rparr>)"

text \<open>
  The socket events. The handlers are bound to the socket object, not to \<open>wsRef\<close>, so
  they run for whichever socket \<open>i\<close> the event belongs to. The browser fires \<open>open\<close>
  on a connecting socket, making it \<open>OPEN\<close>, and \<open>close\<close> once on a socket that is not
  yet closed, making it \<open>CLOSED\<close>.
\<close>

definition ws_onopen :: "nat \<Rightarrow> nat \<Rightarrow> chat_state \<Rightarrow> chat_state" where
  "ws_onopen now i s =
     (if i < length (sockets s) \<and> readyState (sockets s ! i) = CONNECTING
      then (set_ready i OPEN s)
             \<lparr>isConnected := True, isConnecting := False,
              messages := messages s @
                [SystemMsg ''Connected to Multi-Agent Meeting Room'' (ClientTime now)]\<rparr>
      else s)"

definition ws_onerror :: "nat \<Rightarrow> chat_state \<Rightarrow> chat_state" where
  "ws_onerror i s =
     s\<lparr>error := Some ''Connection error. Is autogen-conversation server running?''\<rparr>"

definition ws_onclose :: "nat \<Rightarrow> chat_state \<Rightarrow> chat_state" where
  "ws_onclose i s =
     (if i < length (sockets s) \<and> readyState (sockets s ! i) \<noteq> CLOSED
      then (set_ready i CLOSED s)
             \<lparr>isConnected := False, isConnecting := False, agentStatuses := (\<lambda>k. None)\<rparr>
      else s)"

text \<open>\<open>disconnect\<close>.\<close>

definition disconnect :: "chat_state \<Rightarrow> chat_state" where
  "disconnect s =
     (let s2 =
        (case wsRef s of
           None \<Rightarrow> s
         | Some i \<Rightarrow>
             let s1 = (if ref_state s = Some OPEN then ws_send i EndSessionEnv s else s)
             in (ws_close i s1)\<lparr>wsRef := None\<rparr>)
      in s2\<lparr>isConnected := False, sessionId := None\<rparr>)"

text \<open>
  \<open>startSession\<close>. Without an open socket it calls \<open>connect\<close> and registers the
  500 ms timeout, whose closure holds the \<open>selectedAgents\<close> of the render that made the
  call. \<open>startSession_timeout\<close> is that closure's body, \<open>timer_fires\<close> the expiry of the
  oldest pending timeout (all have the same delay).
\<close>

definition startSession_timeout :: "string list \<Rightarrow> chat_state \<Rightarrow> chat_state" where
  "startSession_timeout ags s =
     (case wsRef s of
        None \<Rightarrow> s
      | Some i \<Rightarrow> if ref_state s = Some OPEN then ws_send i (StartSessionEnv ags) s else s)"

definition startSession :: "nat \<Rightarrow> chat_state \<Rightarrow> chat_state" where
  "startSession now s =
     (if ref_state s \<noteq> Some OPEN then
        (let s1 = connect now s in s1\<lparr>timers := timers s1 @ [selectedAgents s]\<rparr>)
      else
        (case wsRef s of
           None \<Rightarrow> s
         | Some i \<Rightarrow> ws_send i (StartSessionEnv (selectedAgents s)) s))"

definition timer_fires :: "chat_state \<Rightarrow> chat_state" where
  "timer_fires s =
     (case timers s of
        [] \<Rightarrow> s
      | ags # rest \<Rightarrow> startSession_timeout ags (s\<lparr>timers := rest\<rparr>))"

text \<open>
  \<open>sendMessage\<close>. \<open>newStatuses\<close> starts as the empty object and gets one entry per
  selected agent; it replaces \<open>agentStatuses\<close>.
\<close>

fun thinking_statuses :: "string list \<Rightarrow> (string \<Rightarrow> string option) \<Rightarrow> (string \<Rightarrow> string option)" where
  "thinking_statuses [] newStatuses = newStatuses"
| "thinking_statuses (a # rest) newStatuses =
     thinking_statuses rest (newStatuses(a := Some ''thinking''))"

definition sendMessage :: "nat \<Rightarrow> chat_state \<Rightarrow> chat_state" where
  "sendMessage now s =
     (if trim (inputValue s) = [] \<or> ref_state s \<noteq> Some OPEN then s
      else
        (case wsRef s of
           None \<Rightarrow> s
         | Some i \<Rightarrow>
             let userMessage = UserMsg (trim (inputValue s)) (ClientTime now);
                 s1 = s\<lparr>messages := messages s @ [userMessage]\<rparr>;
                 s2 = ws_send i (UserMessageEnv (trim (inputValue s))) s1
             in s2\<lparr>inputValue := [],
                    agentStatuses := thinking_statuses (selectedAgents s) (\<lambda>k. None)\<rparr>))"

text \<open>\<open>toggleAgent\<close>, and the agent button that calls it (\<open>disabled={isConnected}\<close>).\<close>

definition toggleAgent :: "string \<Rightarrow> chat_state \<Rightarrow> chat_state" where
  "toggleAgent agentId s =
     s\<lparr>selectedAgents :=
          (if agentId \<in> set (selectedAgents s)
           then filter (\<lambda>i. i \<noteq> agentId) (selectedAgents s)
           else selectedAgents s @ [agentId])\<rparr>"

definition agent_button_click :: "string \<Rightarrow> chat_state \<Rightarrow> chat_state" where
  "agent_button_click agentId s = (if isConnected s then s else toggleAgent agentId s)"

text \<open>
  The Start Session button: rendered only while \<open>!isConnected\<close>, and
  \<open>disabled={selectedAgents.length === 0 || isConnecting}\<close>.
\<close>

definition start_button_click :: "nat \<Rightarrow> chat_state \<Rightarrow> chat_state" where
  "start_button_click now s =
     (if isConnected s \<or> selectedAgents s = [] \<or> isConnecting s then s
      else startSession now s)"

section \<open>MultiAgentChat: the view and its events\<close>

text \<open>
  The connection state as the view shows it: the \<open>Connected\<close> badge and the End Session
  button while \<open>isConnected\<close>; otherwise the start button, labelled \<open>Connecting...\<close>
  while \<open>isConnecting\<close>.
\<close>

datatype conn = Disconnected | Connecting | Connected

definition conn_state :: "chat_state \<Rightarrow> conn" where
  "conn_state s =
     (if isConnected s then Connected else if isConnecting s then Connecting else Disconnected)"

text \<open>
  The remaining controls. End Session is rendered only while \<open>isConnected\<close>; the input
  and the send button are disabled while \<open>!isConnected\<close>, the send button also while the
  trimmed input is empty (the Enter key calls \<open>sendMessage\<close> without that test, and
  \<open>sendMessage\<close> makes it itself).
\<close>

definition end_button_click :: "chat_state \<Rightarrow> chat_state" where
  "end_button_click s = (if isConnected s then disconnect s else s)"

definition input_change :: "string \<Rightarrow> chat_state \<Rightarrow> chat_state" where
  "input_change v s = (if isConnected s then s\<lparr>inputValue := v\<rparr> else s)"

definition send_click :: "nat \<Rightarrow> chat_state \<Rightarrow> chat_state" where
  "send_click now s = (if isConnected s then sendMessage now s else s)"

text \<open>
  Everything that can happen to a mounted component: a click on one of its controls,
  typing, an event of one of its sockets, the expiry of a start timeout, the arrival of
  the provider list (requested on mount and by the refresh button). A \<open>message\<close>
  event is delivered only on an open socket.
\<close>

datatype chat_event =
    ClickStart nat
  | ClickEnd
  | ClickAgent string
  | TypeInput string
  | ClickSend nat
  | WsOpen nat nat
  | WsError nat
  | WsClosed nat
  | WsMessage nat nat "inbound option"
  | TimerFires
  | ProvidersFetched "js_error + http_response"

fun step :: "chat_event \<Rightarrow> chat_state \<Rightarrow> chat_state" where
  "step (ClickStart now) s = start_button_click now s"
| "step ClickEnd s = end_button_click s"
| "step (ClickAgent a) s = agent_button_click a s"
| "step (TypeInput v) s = input_change v s"
| "step (ClickSend now) s = send_click now s"
| "step (WsOpen now i) s = ws_onopen now i s"
| "step (WsError i) s = ws_onerror i s"
| "step (WsClosed i) s = ws_onclose i s"
| "step (WsMessage now i raw) s =
     (if i < length (sockets s) \<and> readyState (sockets s ! i) = OPEN
      then ws_onmessage now raw s else s)"
| "step TimerFires s = timer_fires s"
| "step (ProvidersFetched outcome) s = fetchProviders outcome s"

fun run :: "chat_event list \<Rightarrow> chat_state \<Rightarrow> chat_state" where
  "run [] s = s"
| "run (e # es) s = run es (step e s)"

text \<open>The two connection flags are never both set.\<close>

definition flags_ok :: "chat_state \<Rightarrow> bool" where
  "flags_ok s = (\<not> (isConnected s \<and> isConnecting s))"

section \<open>IntegrationDashboard: data model\<close>

record service =
  sid :: string
  sname :: string
  description :: string
  color :: string
  health :: string
  endpoints :: "(string \<times> string) list"

text \<open>
  The four entries of \<open>SERVICES\<close>, in the order of the source; \<open>endpoints\<close> holds the
  entries besides \<open>health\<close>.
\<close>

definition news_podcaster :: service where
  "news_podcaster =
     \<lparr>sid = ''news-podcaster'', sname = ''News Podcaster'',
      description = ''Podcast generation pipeline'', color = ''#7C3AED'',
      health = ''http://localhost:8080/api/health'',
      endpoints = [(''runs'', ''http://localhost:8080/api/runs'')]\<rparr>"

definition genai_gateway :: service where
  "genai_gateway =
     \<lparr>sid = ''genai-gateway'', sname = ''GenAI Gateway'',
      description = ''Multi-provider LLM API'', color = ''#3B82F6'',
      health = ''http://localhost:8000/api/v1/health'',
      endpoints = [(''providers'', ''http://localhost:8000/api/v1/providers''),
                   (''statistics'', ''http://localhost:8000/api/v1/statistics'')]\<rparr>"

definition n8n :: service where
  "n8n =
     \<lparr>sid = ''n8n'', sname = ''n8n Automation'',
      description = ''Workflow automation platform'', color = ''#FF6D5A'',
      health = ''http://localhost:5678/healthz'', endpoints = []\<rparr>"

definition claudecodeui :: service where
  "claudecodeui =
     \<lparr>sid = ''claudecodeui'', sname = ''Claude Code UI'',
      description = ''This application'', color = ''#10B981'',
      health = ''/health'', endpoints = []\<rparr>"

definition SERVICES :: "service list" where
  "SERVICES = [news_podcaster, genai_gateway, n8n, claudecodeui]"

text \<open>
  What the network does with a health request, with the time in milliseconds after the
  request was issued: the head of a response arrives, the request fails, or nothing
  ever comes back. The probe's \<open>fetch\<close> carries the signal of an \<open>AbortController\<close>
  that a timer aborts after \<open>PROBE_TIMEOUT_MS\<close>. Awaiting it gives the response or the
  failure when that comes before the timer fires, and the rejection with an
  \<open>AbortError\<close> when the timer fires first; the second component is the time the
  \<open>await\<close> took. The source clears the timer as soon as that \<open>await\<close> has returned,
  before it reads the body.
\<close>

datatype net_reply =
    Answers nat http_response
  | Breaks nat js_error
  | Silent

definition PROBE_TIMEOUT_MS :: nat where
  "PROBE_TIMEOUT_MS = 5000"

definition abort_error :: js_error where
  "abort_error = \<lparr>ename = ''AbortError'', emessage = ''signal is aborted without reason''\<rparr>"

definition fetch_with_signal :: "nat \<Rightarrow> net_reply \<Rightarrow> (js_error + http_response) \<times> nat" where
  "fetch_with_signal timeout_ms n =
     (case n of
        Answers t r \<Rightarrow> if t < timeout_ms then (Inr r, t) else (Inl abort_error, timeout_ms)
      | Breaks t e \<Rightarrow> if t < timeout_ms then (Inl e, t) else (Inl abort_error, timeout_ms)
      | Silent \<Rightarrow> (Inl abort_error, timeout_ms))"

text \<open>
  One health request: what the network does with it, and the reading of
  \<open>performance.now()\<close> taken when the body has been parsed.
\<close>

record probe_env =
  reply :: net_reply
  perf_now :: real

text \<open>The object \<open>checkServiceHealth\<close> returns; a key it leaves out is \<open>None\<close>.\<close>

record probe_result =
  pstatus :: string
  pdata :: "json option"
  perror :: "string option"
  latency :: "real option"

text \<open>The dashboard state: the \<open>useState\<close> cells. \<open>serviceStatuses\<close> is read by key only.\<close>

record dash_state =
  serviceStatuses :: "string \<Rightarrow> probe_result option"
  gatewayStats :: "json option"
  gatewayProviders :: json
  podcastRuns :: json
  isRefreshing :: bool
  lastUpdated :: "nat option"


text \<open>
  The network as the dashboard meets it: what a health request to a URL meets when it
  is issued at a given time (milliseconds on the clock of \<open>Date.now()\<close>), and what
  awaiting a request of the detail fetchers gives. Those requests carry no signal and
  no timer, so such an \<open>await\<close> may never return.
\<close>

record refresh_env =
  probes :: "string \<Rightarrow> nat \<Rightarrow> probe_env"
  details :: "string \<Rightarrow> nat \<Rightarrow> (js_error + http_response) awaited"

text \<open>
  How a call of an async function ends: it returns (\<open>Done\<close>), or it hangs for ever in
  an \<open>await\<close>, leaving the component in the state given (\<open>Hangs\<close>).
\<close>

datatype 'a ended = Done 'a | Hangs dash_state



section \<open>IntegrationDashboard: probing and refreshing\<close>

text \<open>The \<open>catch\<close> clause of \<open>checkServiceHealth\<close>.\<close>

definition probe_catch :: "js_error \<Rightarrow> probe_result" where
  "probe_catch err =
     (if ename err = ''AbortError''
      then \<lparr>pstatus = ''timeout'', pdata = None, perror = Some ''Request timeout'',
            latency = None\<rparr>
      else \<lparr>pstatus = ''offline'', pdata = None, perror = Some (emessage err),
            latency = None\<rparr>)"

text \<open>
  \<open>checkServiceHealth\<close>, called at time \<open>now\<close>: the object it returns and the time at
  which it returns, or \<open>None\<close> when it never returns. The body is read after
  \<open>clearTimeout\<close>, so nothing ends a body read that does not end by itself.
\<close>

definition checkServiceHealth ::
  "(string \<Rightarrow> nat \<Rightarrow> probe_env) \<Rightarrow> nat \<Rightarrow> service \<Rightarrow> (probe_result \<times> nat) option" where
  "checkServiceHealth net now svc =
     (let env = net (health svc) now in
      case fetch_with_signal PROBE_TIMEOUT_MS (reply env) of
        (Inl err, dt) \<Rightarrow> Some (probe_catch err, now + dt)
      | (Inr response, dt) \<Rightarrow>
          if response_ok response then
            (case body_json response of
               Never \<Rightarrow> None
             | Settles d (Inl err) \<Rightarrow> Some (probe_catch err, now + dt + d)
             | Settles d (Inr data) \<Rightarrow>
                 Some (\<lparr>pstatus = ''online'', pdata = Some data, perror = None,
                        latency = Some (real (now + dt + d) - perf_now env)\<rparr>,
                       now + dt + d))
          else
            Some (\<lparr>pstatus = ''error'', pdata = None,
                   perror = Some (''HTTP '' @ show_nat (http_status response)),
                   latency = None\<rparr>,
                  now + dt))"

definition PROVIDERS_URL :: string where
  "PROVIDERS_URL = ''http://localhost:8000/api/v1/providers''"

definition STATISTICS_URL :: string where
  "STATISTICS_URL = ''http://localhost:8000/api/v1/statistics''"

definition RUNS_URL :: string where
  "RUNS_URL = ''http://localhost:8080/api/runs?limit=5''"

text \<open>
  \<open>fetchGatewayDetails\<close>, called at time \<open>now\<close>, in the two blocks of its \<open>try\<close>: the
  provider list, then the statistics. The first throw ends the function, keeping what
  was stored before it; an \<open>await\<close> that never returns leaves it hanging there.
\<close>

definition statistics_block :: "refresh_env \<Rightarrow> nat \<Rightarrow> dash_state \<Rightarrow> (dash_state \<times> nat) ended" where
  "statistics_block env now s =
     (case details env STATISTICS_URL now of
        Never \<Rightarrow> Hangs s
      | Settles d (Inl err) \<Rightarrow> Done (s, now + d)
      | Settles d (Inr statsResp) \<Rightarrow>
          if response_ok statsResp then
            (case body_json statsResp of
               Never \<Rightarrow> Hangs s
             | Settles d2 (Inl err) \<Rightarrow> Done (s, now + d + d2)
             | Settles d2 (Inr data) \<Rightarrow> Done (s\<lparr>gatewayStats := Some data\<rparr>, now + d + d2))
          else Done (s, now + d))"

definition fetchGatewayDetails :: "refresh_env \<Rightarrow> nat \<Rightarrow> dash_state \<Rightarrow> (dash_state \<times> nat) ended" where
  "fetchGatewayDetails env now s =
     (case details env PROVIDERS_URL now of
        Never \<Rightarrow> Hangs s
      | Settles d (Inl err) \<Rightarrow> Done (s, now + d)
      | Settles d (Inr providersResp) \<Rightarrow>
          if response_ok providersResp then
            (case body_json providersResp of
               Never \<Rightarrow> Hangs s
             | Settles d2 (Inl err) \<Rightarrow> Done (s, now + d + d2)
             | Settles d2 (Inr data) \<Rightarrow>
                 (case get_prop ''providers'' data of
                    Inl err \<Rightarrow> Done (s, now + d + d2)
                  | Inr v \<Rightarrow>
                      statistics_block env (now + d + d2) (s\<lparr>gatewayProviders := or_empty v\<rparr>)))
          else statistics_block env (now + d) s)"

definition fetchPodcastRuns :: "refresh_env \<Rightarrow> nat \<Rightarrow> dash_state \<Rightarrow> (dash_state \<times> nat) ended" where
  "fetchPodcastRuns env now s =
     (case details env RUNS_URL now of
        Never \<Rightarrow> Hangs s
      | Settles d (Inl err) \<Rightarrow> Done (s, now + d)
      | Settles d (Inr response) \<Rightarrow>
          if response_ok response then
            (case body_json response of
               Never \<Rightarrow> Hangs s
             | Settles d2 (Inl err) \<Rightarrow> Done (s, now + d + d2)
             | Settles d2 (Inr data) \<Rightarrow>
                 Done (s\<lparr>podcastRuns := or_empty (Some data)\<rparr>, now + d + d2))
          else Done (s, now + d))"

text \<open>
  The loop of \<open>refreshAll\<close>, started at time \<open>now\<close> with the local object \<open>statuses\<close>:
  each probe is awaited before the next is called, so the next is called at the time
  the one before returned, and the loop never ends when a probe never returns. The
  component state is not touched inside the loop.
\<close>

fun probe_loop ::
  "(string \<Rightarrow> nat \<Rightarrow> probe_env) \<Rightarrow> service list \<Rightarrow> (string \<Rightarrow> probe_result option) \<Rightarrow> nat
     \<Rightarrow> ((string \<Rightarrow> probe_result option) \<times> nat) option" where
  "probe_loop net [] statuses now = Some (statuses, now)"
| "probe_loop net (svc # rest) statuses now =
     (case checkServiceHealth net now svc of
        None \<Rightarrow> None
      | Some (r, after) \<Rightarrow> probe_loop net rest (statuses(sid svc := Some r)) after)"

definition is_online :: "probe_result option \<Rightarrow> bool" where
  "is_online x = (case x of None \<Rightarrow> False | Some r \<Rightarrow> pstatus r = ''online'')"

text \<open>
  \<open>refreshAll\<close>, called at time \<open>now\<close>. \<open>setLastUpdated(new Date())\<close> stores the time
  at which the function gets there.
\<close>

definition refreshAll :: "refresh_env \<Rightarrow> nat \<Rightarrow> dash_state \<Rightarrow> dash_state ended" where
  "refreshAll env now s =
     (let s1 = s\<lparr>isRefreshing := True\<rparr> in
      case probe_loop (probes env) SERVICES (\<lambda>k. None) now of
        None \<Rightarrow> Hangs s1
      | Some (statuses, t1) \<Rightarrow>
          (let s2 = s1\<lparr>serviceStatuses := statuses\<rparr> in
           case (if is_online (statuses ''genai-gateway'')
                 then fetchGatewayDetails env t1 s2 else Done (s2, t1)) of
             Hangs h \<Rightarrow> Hangs h
           | Done (s3, t2) \<Rightarrow>
               (case (if is_online (statuses ''news-podcaster'')
                      then fetchPodcastRuns env t2 s3 else Done (s3, t2)) of
                  Hangs h \<Rightarrow> Hangs h
                | Done (s4, t3) \<Rightarrow>
                    Done (s4\<lparr>lastUpdated := Some t3, isRefreshing := False\<rparr>))))"

text \<open>
  A health request stalls when the head of a 2xx response arrives before the abort
  timer fires and the body never ends. A detail request settles when it is answered or
  fails and, where it is answered, the body read ends.
\<close>

definition stalls :: "probe_env \<Rightarrow> bool" where
  "stalls pe =
     (case reply pe of
        Answers t r \<Rightarrow> t < PROBE_TIMEOUT_MS \<and> response_ok r \<and> body_json r = Never
      | Breaks t e \<Rightarrow> False
      | Silent \<Rightarrow> False)"




section \<open>Concrete inputs\<close>

definition thinking_envelope :: inbound where
  "thinking_envelope =
     \<lparr>etype = ''status'', sender = None, content = None, timestamp = None,
      agent = Some ''Gemini'', status = Some ''thinking'', message = None, agents = None,
      action = None, result = None, success = None\<rparr>"

definition reply_envelope :: inbound where
  "reply_envelope =
     \<lparr>etype = ''message'', sender = Some ''GEMINI'', content = Some (JStr ''hello''),
      timestamp = None, agent = None, status = None, message = None, agents = None,
      action = None, result = None, success = None\<rparr>"

text \<open>A fresh component after one call of \<open>connect\<close>, and after that socket opened.\<close>

definition connecting_chat :: chat_state where
  "connecting_chat = connect 1 initial_chat"

definition open_chat :: chat_state where
  "open_chat = ws_onopen 2 0 connecting_chat"

text \<open>
  Clicks and socket events only: a session is started and ended, the next start is
  clicked before the first socket's close event arrives, and start is clicked once more.
\<close>

definition restart_events :: "chat_event list" where
  "restart_events =
     [ClickStart 1, WsOpen 2 0, TimerFires, ClickEnd, ClickStart 3, WsClosed 0, ClickStart 4]"

text \<open>
  An open session in which the server has reported \<open>ollama\<close>, an agent that is not
  selected, as thinking, and the user has typed a message.
\<close>

definition ollama_thinking :: inbound where
  "ollama_thinking =
     \<lparr>etype = ''status'', sender = None, content = None, timestamp = None,
      agent = Some ''ollama'', status = Some ''thinking'', message = None, agents = None,
      action = None, result = None, success = None\<rparr>"

definition busy_chat :: chat_state where
  "busy_chat =
     run [ClickStart 1, WsOpen 2 0, TimerFires, WsMessage 3 0 (Some ollama_thinking),
          TypeInput '' hi ''] initial_chat"

text \<open>
  A network that treats every health request alike, a health body, a thrown parse
  failure and a failed request.
\<close>

definition with_reply :: "net_reply \<Rightarrow> string \<Rightarrow> nat \<Rightarrow> probe_env" where
  "with_reply r = (\<lambda>u now. \<lparr>reply = r, perf_now = 250\<rparr>)"


definition parse_failure :: js_error where
  "parse_failure =
     \<lparr>ename = ''SyntaxError'', emessage = ''Unexpected token < in JSON at position 0''\<rparr>"


text \<open>A 2xx response whose head arrives after 12 ms and whose body never ends.\<close>

definition stalled_reply :: net_reply where
  "stalled_reply = Answers 12 \<lparr>http_status = 200, body_json = Never\<rparr>"





section \<open>Inbound dispatch: log growth\<close>

lemma handle_length:
  "length (messages (handleWebSocketMessage now d s)) =
     length (messages s) + (if appends_entry d then 1 else 0)"
  by (simp add: handleWebSocketMessage_def appends_entry_def)

lemma handle_types:
  "map msg_type (messages (handleWebSocketMessage now d s)) =
     map msg_type (messages s) @ (if appends_entry d then [rendered_as d] else [])"
  by (simp add: handleWebSocketMessage_def appends_entry_def rendered_as_def)

lemma dispatch_all_types:
  "map msg_type (messages (dispatch_all evs s)) =
     map msg_type (messages s) @
       map (\<lambda>ev. rendered_as (snd ev)) (filter (\<lambda>ev. appends_entry (snd ev)) evs)"
proof (induction evs arbitrary: s)
  case Nil
  show ?case by simp
next
  case (Cons ev evs)
  obtain now d where ev: "ev = (now, d)" by (cases ev)
  show ?case
    using Cons.IH [of "handleWebSocketMessage now d s"]
    by (simp add: ev handle_types)
qed

lemma dispatch_all_length:
  "length (messages (dispatch_all evs s)) =
     length (messages s) + length (filter (\<lambda>ev. appends_entry (snd ev)) evs)"
proof -
  have "length (map msg_type (messages (dispatch_all evs s))) =
        length (map msg_type (messages s) @
          map (\<lambda>ev. rendered_as (snd ev)) (filter (\<lambda>ev. appends_entry (snd ev)) evs))"
    by (simp only: dispatch_all_types)
  then show ?thesis by simp
qed

text \<open>
  Claim C4. Handling one envelope lengthens the message log by one when its type is
  \<open>message\<close>, \<open>error\<close>, \<open>session_started\<close> or \<open>action_result\<close>, and by nothing for
  \<open>status\<close> and for every other type. Over any sequence of envelopes the log therefore
  grows by the number of envelopes of those four types, the new entries are of type
  \<open>agent\<close>, \<open>error\<close>, \<open>system\<close> and \<open>action\<close> in arrival order, and from the empty log
  of a fresh component the final length is that number.
\<close>

theorem C4_log_growth:
  "length (messages (handleWebSocketMessage now d s)) =
     length (messages s) + (if appends_entry d then 1 else 0)
   \<and> length (messages (dispatch_all evs s)) =
       length (messages s) + length (filter (\<lambda>ev. appends_entry (snd ev)) evs)
   \<and> map msg_type (messages (dispatch_all evs s)) =
       map msg_type (messages s) @
         map (\<lambda>ev. rendered_as (snd ev)) (filter (\<lambda>ev. appends_entry (snd ev)) evs)
   \<and> length (messages (dispatch_all evs initial_chat)) =
       length (filter (\<lambda>ev. appends_entry (snd ev)) evs)"
proof -
  have "messages initial_chat = []"
    by (simp add: initial_chat_def)
  then show ?thesis
    using dispatch_all_length [of evs initial_chat]
    by (simp add: handle_length dispatch_all_length dispatch_all_types)
qed

section \<open>Inbound dispatch: status reset\<close>

lemma status_sets_entry:
  "etype st = ''status'' \<Longrightarrow>
     agentStatuses (handleWebSocketMessage n st s) (agent_key (agent st)) = status st"
  by (simp add: handleWebSocketMessage_def)

lemma message_resets_entry:
  "etype m = ''message'' \<Longrightarrow>
     agentStatuses (handleWebSocketMessage n m s) (agent_key (sender m)) = Some ''idle''"
  by (simp add: handleWebSocketMessage_def)

text \<open>
  Claim C9. A \<open>status\<close> envelope for agent \<open>a\<close> with value \<open>thinking\<close> makes the entry
  under the lower-cased key \<open>thinking\<close>; a following \<open>message\<close> envelope whose sender
  equals \<open>a\<close> up to letter case makes that entry \<open>idle\<close>.
\<close>

theorem C9_status_reset:
  assumes "etype st = ''status''" and "agent st = Some a" and "status st = Some ''thinking''"
    and "etype m = ''message''" and "sender m = Some b"
    and "toLowerCase b = toLowerCase a"
  shows "agentStatuses (handleWebSocketMessage n1 st s) (toLowerCase a) = Some ''thinking''
       \<and> agentStatuses (handleWebSocketMessage n2 m (handleWebSocketMessage n1 st s))
           (toLowerCase a) = Some ''idle''"
proof -
  have k1: "agent_key (agent st) = toLowerCase a"
    using assms(2) by (simp add: agent_key_def)
  have k2: "agent_key (sender m) = toLowerCase a"
    using assms(5,6) by (simp add: agent_key_def)
  show ?thesis
    using status_sets_entry [OF assms(1), of n1 s]
      message_resets_entry [OF assms(4), of n2 "handleWebSocketMessage n1 st s"] assms(3)
    by (simp add: k1 k2)
qed

theorem C9_status_reset_witness:
  "agentStatuses (handleWebSocketMessage 10 thinking_envelope initial_chat) ''gemini''
     = Some ''thinking''
   \<and> agentStatuses
       (handleWebSocketMessage 20 reply_envelope
          (handleWebSocketMessage 10 thinking_envelope initial_chat)) ''gemini''
     = Some ''idle''"
proof -
  have low: "toLowerCase ''GEMINI'' = ''gemini''" "toLowerCase ''Gemini'' = ''gemini''"
    by code_simp+
  show ?thesis
    using C9_status_reset [of thinking_envelope "''Gemini''" reply_envelope "''GEMINI''"
        10 initial_chat 20]
    by (simp add: thinking_envelope_def reply_envelope_def low)
qed

section \<open>Agent selection\<close>

lemmas chat_defs = connect_def ref_state_def set_ready_def ws_send_def ws_close_def
  ws_onopen_def ws_onclose_def ws_onerror_def disconnect_def startSession_def
  startSession_timeout_def timer_fires_def sendMessage_def toggleAgent_def
  agent_button_click_def start_button_click_def end_button_click_def input_change_def
  send_click_def ws_onmessage_def initial_chat_def AUTOGEN_WS_URL_def

text \<open>
  Claim C8. A click on an agent button while \<open>isConnected\<close> changes nothing (the button
  is disabled), so the selection is frozen. While not connected the click removes the
  agent from the selection when it is there, keeping the others in order, and appends
  it when it is not.
\<close>

theorem C8_toggle_agent:
  "(isConnected s \<longrightarrow> agent_button_click a s = s)
   \<and> (\<not> isConnected s \<and> a \<in> set (selectedAgents s) \<longrightarrow>
        selectedAgents (agent_button_click a s) = filter (\<lambda>i. i \<noteq> a) (selectedAgents s)
        \<and> a \<notin> set (selectedAgents (agent_button_click a s)))
   \<and> (\<not> isConnected s \<and> a \<notin> set (selectedAgents s) \<longrightarrow>
        selectedAgents (agent_button_click a s) = selectedAgents s @ [a])"
  by (simp add: agent_button_click_def toggleAgent_def)

theorem C8_toggle_agent_witness:
  "agent_button_click ''claude'' open_chat = open_chat
   \<and> selectedAgents (agent_button_click ''gemini'' initial_chat) = [''claude'']
   \<and> selectedAgents (agent_button_click ''ollama'' initial_chat)
       = [''gemini'', ''claude'', ''ollama'']"
proof -
  have c: "isConnected open_chat"
    by (simp add: open_chat_def connecting_chat_def chat_defs Let_def)
  have d: "\<not> isConnected initial_chat" "selectedAgents initial_chat = [''gemini'', ''claude'']"
    by (simp_all add: initial_chat_def)
  show ?thesis
    using C8_toggle_agent [of open_chat "''claude''"]
      C8_toggle_agent [of initial_chat "''gemini''"]
      C8_toggle_agent [of initial_chat "''ollama''"] c d
    by simp
qed

section \<open>Connect\<close>

lemma connect_when_open: "ref_state s = Some OPEN \<Longrightarrow> connect now s = s"
  by (simp add: connect_def)

lemma connect_when_not_open:
  "ref_state s \<noteq> Some OPEN \<Longrightarrow>
     sockets (connect now s) =
       sockets s @ [\<lparr>url = AUTOGEN_WS_URL @ ''/claude-ui-'' @ show_nat now,
                     readyState = CONNECTING\<rparr>]
     \<and> wsRef (connect now s) = Some (length (sockets s))
     \<and> isConnecting (connect now s)
     \<and> sessionId (connect now s) = Some (''claude-ui-'' @ show_nat now)"
  by (simp add: connect_def Let_def)

lemma connecting_chat_facts:
  "ref_state connecting_chat = Some CONNECTING"
  "isConnecting connecting_chat"
  "\<not> isConnected connecting_chat"
  "length (sockets connecting_chat) = 1"
  by (simp_all add: connecting_chat_def chat_defs Let_def)

lemma open_chat_facts:
  "ref_state open_chat = Some OPEN"
  "wsRef open_chat = Some 0"
  "isConnected open_chat"
  "\<not> isConnecting open_chat"
  by (simp_all add: open_chat_def connecting_chat_def chat_defs Let_def)

text \<open>
  Claim C1 fails as stated. After one \<open>connect\<close> the view is in state \<open>connecting\<close>;
  a second call is no no-op there: it opens a second socket while the first is still
  connecting and replaces the session identifier. Two attempts are outstanding at once
  also after clicks and socket events alone (\<open>restart_events\<close>).
\<close>

theorem C1_connect_while_connecting:
  "conn_state connecting_chat = Connecting
   \<and> ref_state connecting_chat = Some CONNECTING
   \<and> connect 2 connecting_chat \<noteq> connecting_chat
   \<and> map readyState (sockets (connect 2 connecting_chat)) = [CONNECTING, CONNECTING]
   \<and> sessionId connecting_chat = Some ''claude-ui-1''
   \<and> sessionId (connect 2 connecting_chat) = Some ''claude-ui-2''
   \<and> map readyState (sockets (run restart_events initial_chat))
       = [CLOSED, CONNECTING, CONNECTING]"
proof -
  have two: "map readyState (sockets (connect 2 connecting_chat)) = [CONNECTING, CONNECTING]"
    by (simp add: connecting_chat_def chat_defs Let_def)
  have differ: "connect 2 connecting_chat \<noteq> connecting_chat"
  proof
    assume "connect 2 connecting_chat = connecting_chat"
    then have "length (map readyState (sockets (connect 2 connecting_chat)))
                 = length (sockets connecting_chat)"
      by simp
    then show False
      by (simp only: two connecting_chat_facts(4)) simp
  qed
  have ids: "sessionId connecting_chat = Some ''claude-ui-1''"
    "sessionId (connect 2 connecting_chat) = Some ''claude-ui-2''"
    by code_simp+
  have race: "map readyState (sockets (run restart_events initial_chat))
                = [CLOSED, CONNECTING, CONNECTING]"
    by code_simp
  show ?thesis
    using two differ ids race connecting_chat_facts
    by (simp add: conn_state_def)
qed

text \<open>
  Claim C1 as amended. \<open>connect\<close> is a no-op when the current socket is open: no
  socket is created and no field changes. While the view is \<open>connecting\<close> or
  \<open>connected\<close>, a click on Start Session, the only way to \<open>connect\<close>, changes
  nothing either.
\<close>

theorem C1_connect_guard:
  "(ref_state s = Some OPEN \<longrightarrow> connect now s = s)
   \<and> (conn_state s = Connecting \<or> conn_state s = Connected \<longrightarrow>
        start_button_click now s = s)"
  using connect_when_open [of s now]
  by (auto simp: start_button_click_def conn_state_def split: if_splits)

theorem C1_connect_guard_witness:
  "connect 3 open_chat = open_chat
   \<and> sockets (connect 3 open_chat) = sockets open_chat
   \<and> start_button_click 3 connecting_chat = connecting_chat
   \<and> start_button_click 3 open_chat = open_chat"
proof -
  have a: "conn_state connecting_chat = Connecting" "conn_state open_chat = Connected"
    by (simp_all add: conn_state_def connecting_chat_facts open_chat_facts)
  show ?thesis
    using C1_connect_guard [of open_chat 3] C1_connect_guard [of connecting_chat 3]
      a open_chat_facts
    by simp
qed

section \<open>Sending a user message\<close>

lemma thinking_statuses_lookup:
  "thinking_statuses xs m a = (if a \<in> set xs then Some ''thinking'' else m a)"
  by (induction xs arbitrary: m) auto

lemma ref_open_index: "ref_state s = Some OPEN \<Longrightarrow> \<exists>i. wsRef s = Some i"
  by (cases "wsRef s") (simp_all add: ref_state_def)

lemma busy_facts:
  "trim (inputValue busy_chat) = ''hi''"
  "ref_state busy_chat = Some OPEN"
  "wsRef busy_chat = Some 0"
  "selectedAgents busy_chat = [''gemini'', ''claude'']"
  "agentStatuses busy_chat ''ollama'' = Some ''thinking''"
  "isConnected busy_chat"
  by code_simp+

text \<open>
  Claim C2 fails as stated. In \<open>busy_chat\<close> the precondition holds and \<open>ollama\<close> is
  not selected; its status entry is \<open>thinking\<close> before \<open>sendMessage\<close> and gone after
  it, not unchanged.
\<close>

theorem C2_other_entries_dropped:
  "trim (inputValue busy_chat) \<noteq> []
   \<and> ref_state busy_chat = Some OPEN
   \<and> conn_state busy_chat = Connected
   \<and> ''ollama'' \<notin> set (selectedAgents busy_chat)
   \<and> agentStatuses busy_chat ''ollama'' = Some ''thinking''
   \<and> agentStatuses (sendMessage 5 busy_chat) ''ollama'' = None"
proof -
  have "agentStatuses (sendMessage 5 busy_chat) ''ollama'' = None"
    by code_simp
  then show ?thesis
    by (simp add: busy_facts conn_state_def)
qed

text \<open>
  Claim C2 as amended. When the trimmed input is not empty and the current socket is
  open, \<open>sendMessage\<close> appends exactly one \<open>user\<close> entry with the trimmed text, sends
  exactly one \<open>user_message\<close> envelope with that text on the current socket, clears the
  input, and replaces the status map by the map that holds \<open>thinking\<close> for every
  selected agent and nothing else: the entries of agents outside the selection are
  removed.
\<close>

theorem C2_send_message:
  assumes "trim (inputValue s) \<noteq> []" and "ref_state s = Some OPEN"
  shows "(\<exists>i. wsRef s = Some i
            \<and> wire (sendMessage now s) = wire s @ [WsSend i (UserMessageEnv (trim (inputValue s)))])
       \<and> messages (sendMessage now s) = messages s @ [UserMsg (trim (inputValue s)) (ClientTime now)]
       \<and> (\<forall>a. agentStatuses (sendMessage now s) a
                 = (if a \<in> set (selectedAgents s) then Some ''thinking'' else None))
       \<and> inputValue (sendMessage now s) = []
       \<and> selectedAgents (sendMessage now s) = selectedAgents s"
proof -
  obtain i where i: "wsRef s = Some i"
    using ref_open_index [OF assms(2)] by blast
  show ?thesis
    using assms i
    by (simp add: sendMessage_def ws_send_def Let_def thinking_statuses_lookup)
qed

theorem C2_send_message_witness:
  "messages (sendMessage 5 busy_chat) = messages busy_chat @ [UserMsg ''hi'' (ClientTime 5)]
   \<and> wire (sendMessage 5 busy_chat) = wire busy_chat @ [WsSend 0 (UserMessageEnv ''hi'')]
   \<and> agentStatuses (sendMessage 5 busy_chat) ''gemini'' = Some ''thinking''
   \<and> agentStatuses (sendMessage 5 busy_chat) ''claude'' = Some ''thinking''
   \<and> agentStatuses (sendMessage 5 busy_chat) ''copilot'' = None"
proof -
  have h: "trim (inputValue busy_chat) \<noteq> []" "ref_state busy_chat = Some OPEN"
    by (simp_all add: busy_facts)
  show ?thesis
    using C2_send_message [OF h, of 5]
    by (simp add: busy_facts)
qed

section \<open>Starting a session\<close>









section \<open>Ending a session\<close>

lemma set_ready_flags:
  "isConnected (set_ready i r s) = isConnected s"
  "isConnecting (set_ready i r s) = isConnecting s"
  by (simp_all add: set_ready_def)

lemma step_flags_ok: "flags_ok s \<Longrightarrow> flags_ok (step e s)"
proof (cases e)
  case (ClickStart now)
  then show "flags_ok s \<Longrightarrow> flags_ok (step e s)"
    by (simp add: flags_ok_def start_button_click_def startSession_def connect_def Let_def
        ws_send_def split: option.splits)
next
  case ClickEnd
  then show "flags_ok s \<Longrightarrow> flags_ok (step e s)"
    by (simp add: flags_ok_def end_button_click_def disconnect_def Let_def)
next
  case (ClickAgent a)
  then show "flags_ok s \<Longrightarrow> flags_ok (step e s)"
    by (simp add: flags_ok_def agent_button_click_def toggleAgent_def)
next
  case (TypeInput v)
  then show "flags_ok s \<Longrightarrow> flags_ok (step e s)"
    by (simp add: flags_ok_def input_change_def)
next
  case (ClickSend now)
  then show "flags_ok s \<Longrightarrow> flags_ok (step e s)"
    by (simp add: flags_ok_def send_click_def sendMessage_def ws_send_def Let_def
        split: option.splits)
next
  case (WsOpen now i)
  then show "flags_ok s \<Longrightarrow> flags_ok (step e s)"
    by (simp add: flags_ok_def ws_onopen_def)
next
  case (WsError i)
  then show "flags_ok s \<Longrightarrow> flags_ok (step e s)"
    by (simp add: flags_ok_def ws_onerror_def)
next
  case (WsClosed i)
  then show "flags_ok s \<Longrightarrow> flags_ok (step e s)"
    by (simp add: flags_ok_def ws_onclose_def)
next
  case (WsMessage now i raw)
  then show "flags_ok s \<Longrightarrow> flags_ok (step e s)"
    by (simp add: flags_ok_def ws_onmessage_def handleWebSocketMessage_def
        split: option.splits)
next
  case TimerFires
  then show "flags_ok s \<Longrightarrow> flags_ok (step e s)"
    by (simp add: flags_ok_def timer_fires_def startSession_timeout_def ws_send_def
        split: option.splits list.splits)
next
  case (ProvidersFetched outcome)
  then show "flags_ok s \<Longrightarrow> flags_ok (step e s)"
    by (simp add: flags_ok_def fetchProviders_def split: sum.splits awaited.splits)
qed

lemma run_flags_ok: "flags_ok s \<Longrightarrow> flags_ok (run evs s)"
  by (induction evs arbitrary: s) (simp_all add: step_flags_ok)

lemma initial_flags_ok: "flags_ok initial_chat"
  by (simp add: flags_ok_def initial_chat_def)

lemma disconnect_fields:
  "sessionId (disconnect s) = None"
  "isConnected (disconnect s) = False"
  "wsRef (disconnect s) = None"
  "isConnecting (disconnect s) = isConnecting s"
  "agentStatuses (disconnect s) = agentStatuses s"
  "messages (disconnect s) = messages s"
  by (simp_all add: disconnect_def ws_close_def ws_send_def set_ready_def Let_def
      split: option.splits)

lemma disconnect_open:
  "wsRef s = Some i \<Longrightarrow> ref_state s = Some OPEN \<Longrightarrow>
     wire (disconnect s) = wire s @ [WsSend i EndSessionEnv, WsClose i]
     \<and> map readyState (sockets (disconnect s)) = (map readyState (sockets s))[i := CLOSING]"
  by (auto simp: disconnect_def ws_close_def ws_send_def set_ready_def Let_def ref_state_def
      map_update split: if_splits)

lemma disconnect_not_open:
  "ref_state s \<noteq> Some OPEN \<Longrightarrow>
     wire (disconnect s) = wire s @ (case wsRef s of None \<Rightarrow> [] | Some i \<Rightarrow> [WsClose i])"
  by (simp add: disconnect_def ws_close_def ws_send_def set_ready_def Let_def
      split: option.splits)

lemma onclose_effect:
  "i < length (sockets u) \<Longrightarrow> readyState (sockets u ! i) \<noteq> CLOSED \<Longrightarrow>
     agentStatuses (ws_onclose i u) = (\<lambda>k. None)
     \<and> conn_state (ws_onclose i u) = Disconnected
     \<and> sessionId (ws_onclose i u) = sessionId u"
  by (simp add: ws_onclose_def conn_state_def set_ready_def)

lemma disconnect_socket:
  "wsRef s = Some i \<Longrightarrow> i < length (sockets s) \<Longrightarrow> readyState (sockets s ! i) \<noteq> CLOSED \<Longrightarrow>
     i < length (sockets (disconnect s)) \<and> readyState (sockets (disconnect s) ! i) \<noteq> CLOSED"
  by (auto simp: disconnect_def ws_close_def ws_send_def set_ready_def Let_def)

text \<open>
  Claim C7. When the current socket is open, \<open>disconnect\<close> sends exactly one
  \<open>end_session\<close> envelope on it and then closes it; otherwise it sends nothing. In every
  case it clears the session identifier, \<open>wsRef\<close> and the \<open>isConnected\<close> flag, so the
  view is no longer \<open>connected\<close>. \<open>disconnect\<close> leaves \<open>isConnecting\<close> alone: in every
  state that clicks, typing, socket events and timeouts lead to, \<open>isConnecting\<close> is
  false whenever End Session is on offer (\<open>isConnected\<close>), and the view is
  \<open>disconnected\<close> after the call. Once the close event of the socket has fired the
  status map is empty and the view is \<open>disconnected\<close>.
\<close>

theorem C7_end_session:
  "(wsRef s = Some i \<and> ref_state s = Some OPEN \<longrightarrow>
      wire (disconnect s) = wire s @ [WsSend i EndSessionEnv, WsClose i]
      \<and> map readyState (sockets (disconnect s)) = (map readyState (sockets s))[i := CLOSING])
   \<and> (ref_state s \<noteq> Some OPEN \<longrightarrow>
        wire (disconnect s) = wire s @ (case wsRef s of None \<Rightarrow> [] | Some j \<Rightarrow> [WsClose j]))
   \<and> sessionId (disconnect s) = None
   \<and> isConnected (disconnect s) = False
   \<and> wsRef (disconnect s) = None
   \<and> conn_state (disconnect s) \<noteq> Connected
   \<and> (isConnected (run evs initial_chat) \<longrightarrow>
        conn_state (disconnect (run evs initial_chat)) = Disconnected)
   \<and> (wsRef s = Some i \<and> i < length (sockets s) \<and> readyState (sockets s ! i) \<noteq> CLOSED \<longrightarrow>
        agentStatuses (ws_onclose i (disconnect s)) = (\<lambda>k. None)
        \<and> conn_state (ws_onclose i (disconnect s)) = Disconnected
        \<and> sessionId (ws_onclose i (disconnect s)) = None)"
proof -
  have reach: "isConnected (run evs initial_chat) \<Longrightarrow>
                 conn_state (disconnect (run evs initial_chat)) = Disconnected"
    using run_flags_ok [OF initial_flags_ok, of evs]
    by (simp add: flags_ok_def conn_state_def disconnect_fields)
  have closed: "wsRef s = Some i \<Longrightarrow> i < length (sockets s) \<Longrightarrow>
                readyState (sockets s ! i) \<noteq> CLOSED \<Longrightarrow>
        agentStatuses (ws_onclose i (disconnect s)) = (\<lambda>k. None)
        \<and> conn_state (ws_onclose i (disconnect s)) = Disconnected
        \<and> sessionId (ws_onclose i (disconnect s)) = None"
    using onclose_effect [of i "disconnect s"] disconnect_socket [of s i]
    by (simp add: disconnect_fields)
  show ?thesis
    using disconnect_open [of s i] disconnect_not_open [of s] reach closed
    by (simp add: disconnect_fields conn_state_def)
qed


theorem C7_end_session_witness:
  "wire (disconnect open_chat) = wire open_chat @ [WsSend 0 EndSessionEnv, WsClose 0]
   \<and> wire (disconnect connecting_chat) = wire connecting_chat @ [WsClose 0]
   \<and> sessionId (disconnect open_chat) = None
   \<and> conn_state (disconnect (run [ClickStart 1, WsOpen 2 0] initial_chat)) = Disconnected
   \<and> agentStatuses (ws_onclose 0 (disconnect open_chat)) = (\<lambda>k. None)
   \<and> conn_state (ws_onclose 0 (disconnect open_chat)) = Disconnected"
proof -
  have r: "isConnected (run [ClickStart 1, WsOpen 2 0] initial_chat)"
    by code_simp
  have o: "0 < length (sockets open_chat)" "readyState (sockets open_chat ! 0) \<noteq> CLOSED"
    by (simp_all add: open_chat_def connecting_chat_def chat_defs Let_def)
  have c: "wsRef connecting_chat = Some 0" "ref_state connecting_chat \<noteq> Some OPEN"
    by (simp_all add: connecting_chat_def chat_defs Let_def)
  show ?thesis
    using C7_end_session [of open_chat 0 "[ClickStart 1, WsOpen 2 0]"]
      C7_end_session [of connecting_chat 0 "[]"] r o c open_chat_facts
    by simp
qed

section \<open>Health probes\<close>

lemma fetch_cases:
  "t < PROBE_TIMEOUT_MS \<Longrightarrow> fetch_with_signal PROBE_TIMEOUT_MS (Answers t r) = (Inr r, t)"
  "t < PROBE_TIMEOUT_MS \<Longrightarrow> fetch_with_signal PROBE_TIMEOUT_MS (Breaks t e) = (Inl e, t)"
  "PROBE_TIMEOUT_MS \<le> t \<Longrightarrow>
     fetch_with_signal PROBE_TIMEOUT_MS (Answers t r) = (Inl abort_error, PROBE_TIMEOUT_MS)"
  "PROBE_TIMEOUT_MS \<le> t \<Longrightarrow>
     fetch_with_signal PROBE_TIMEOUT_MS (Breaks t e) = (Inl abort_error, PROBE_TIMEOUT_MS)"
  "fetch_with_signal PROBE_TIMEOUT_MS Silent = (Inl abort_error, PROBE_TIMEOUT_MS)"
  by (simp_all add: fetch_with_signal_def)

lemma probe_catch_abort:
  "probe_catch abort_error =
     \<lparr>pstatus = ''timeout'', pdata = None, perror = Some ''Request timeout'', latency = None\<rparr>"
  by (simp add: probe_catch_def abort_error_def)

lemma probe_catch_other:
  "ename e \<noteq> ''AbortError'' \<Longrightarrow>
     probe_catch e =
       \<lparr>pstatus = ''offline'', pdata = None, perror = Some (emessage e), latency = None\<rparr>"
  by (simp add: probe_catch_def)

lemma probe_online:
  "reply (net (health svc) now) = Answers t r \<Longrightarrow> t < PROBE_TIMEOUT_MS \<Longrightarrow> response_ok r \<Longrightarrow>
   body_json r = Settles d (Inr data) \<Longrightarrow>
     checkServiceHealth net now svc =
       Some (\<lparr>pstatus = ''online'', pdata = Some data, perror = None,
              latency = Some (real (now + t + d) - perf_now (net (health svc) now))\<rparr>,
             now + t + d)"
  by (simp add: checkServiceHealth_def Let_def fetch_cases)

lemma probe_error:
  "reply (net (health svc) now) = Answers t r \<Longrightarrow> t < PROBE_TIMEOUT_MS \<Longrightarrow> \<not> response_ok r \<Longrightarrow>
     checkServiceHealth net now svc =
       Some (\<lparr>pstatus = ''error'', pdata = None,
              perror = Some (''HTTP '' @ show_nat (http_status r)), latency = None\<rparr>,
             now + t)"
  by (simp add: checkServiceHealth_def Let_def fetch_cases)

lemma probe_timeout:
  "reply (net (health svc) now) = Silent
     \<or> reply (net (health svc) now) = Answers t r \<and> PROBE_TIMEOUT_MS \<le> t
     \<or> reply (net (health svc) now) = Breaks t e \<and> PROBE_TIMEOUT_MS \<le> t \<Longrightarrow>
     checkServiceHealth net now svc =
       Some (\<lparr>pstatus = ''timeout'', pdata = None, perror = Some ''Request timeout'',
              latency = None\<rparr>,
             now + PROBE_TIMEOUT_MS)"
  by (auto simp: checkServiceHealth_def Let_def fetch_cases probe_catch_abort)

lemma probe_offline:
  "reply (net (health svc) now) = Breaks t e \<Longrightarrow> t < PROBE_TIMEOUT_MS \<Longrightarrow>
   ename e \<noteq> ''AbortError'' \<Longrightarrow>
     checkServiceHealth net now svc =
       Some (\<lparr>pstatus = ''offline'', pdata = None, perror = Some (emessage e), latency = None\<rparr>,
             now + t)"
  by (simp add: checkServiceHealth_def Let_def fetch_cases probe_catch_other)

lemma probe_body_throws:
  "reply (net (health svc) now) = Answers t r \<Longrightarrow> t < PROBE_TIMEOUT_MS \<Longrightarrow> response_ok r \<Longrightarrow>
   body_json r = Settles d (Inl e) \<Longrightarrow>
     checkServiceHealth net now svc = Some (probe_catch e, now + t + d)"
  by (simp add: checkServiceHealth_def Let_def fetch_cases)

lemma probe_stalls:
  "stalls (net (health svc) now) \<Longrightarrow> checkServiceHealth net now svc = None"
  by (auto simp: stalls_def checkServiceHealth_def Let_def fetch_cases split: net_reply.splits)


lemma probe_inputs:
  "health n8n = ''http://localhost:5678/healthz''"
  "reply (with_reply r u now) = r"
  "PROBE_TIMEOUT_MS = 5000"
  by (simp_all add: n8n_def with_reply_def PROBE_TIMEOUT_MS_def)

text \<open>
  Claim C5 (every probe is classified as online, error, timeout or offline and is never
  left pending) holds for the request and is broken by the code for the body. The head
  of a 2xx response arrives after 12 ms, before the abort timer fires; the source
  clears the timer and then awaits \<open>response.json()\<close>; the body never ends, and
  \<open>checkServiceHealth\<close> never returns. A request that gets no answer at all is
  aborted by the timer and classified \<open>timeout\<close>.
\<close>

theorem C5_stalled_body_pending:
  "stalled_reply = Answers 12 \<lparr>http_status = 200, body_json = Never\<rparr>
   \<and> 12 < PROBE_TIMEOUT_MS
   \<and> checkServiceHealth (with_reply stalled_reply) 0 n8n = None
   \<and> map_option (\<lambda>p. pstatus (fst p)) (checkServiceHealth (with_reply Silent) 0 n8n)
       = Some ''timeout''"
proof -
  have s: "stalls (with_reply stalled_reply (health n8n) 0)"
    by (simp add: stalls_def with_reply_def stalled_reply_def PROBE_TIMEOUT_MS_def
        response_ok_def)
  have t: "checkServiceHealth (with_reply Silent) 0 n8n =
             Some (\<lparr>pstatus = ''timeout'', pdata = None, perror = Some ''Request timeout'',
                    latency = None\<rparr>, 0 + PROBE_TIMEOUT_MS)"
    by (rule probe_timeout) (simp add: probe_inputs)
  show ?thesis
    using probe_stalls [of "with_reply stalled_reply" n8n 0] s t
    by (simp add: stalled_reply_def PROBE_TIMEOUT_MS_def)
qed

text \<open>
  Claim C10. When the response has a 2xx status and reading its body as JSON throws a
  \<open>SyntaxError\<close>, the probe returns the result the \<open>catch\<close> clause builds for that
  error, as for a transport failure: status \<open>offline\<close> with the parse failure's message
  and no payload.
\<close>

theorem C10_unparseable_body:
  "reply (net (health svc) now) = Answers t r \<and> t < PROBE_TIMEOUT_MS \<and> response_ok r
     \<and> body_json r = Settles d (Inl e) \<and> ename e = ''SyntaxError'' \<longrightarrow>
     checkServiceHealth net now svc = Some (probe_catch e, now + t + d)
     \<and> pstatus (probe_catch e) = ''offline''
     \<and> perror (probe_catch e) = Some (emessage e)
     \<and> pdata (probe_catch e) = None"
  using probe_body_throws [of net svc now t r d e]
  by (simp add: probe_catch_def)

theorem C10_unparseable_body_witness:
  "map_option (\<lambda>p. pstatus (fst p))
     (checkServiceHealth
        (with_reply (Answers 12 \<lparr>http_status = 200, body_json = Settles 3 (Inl parse_failure)\<rparr>))
        0 n8n)
     = Some ''offline''
   \<and> map_option (\<lambda>p. perror (fst p))
     (checkServiceHealth
        (with_reply (Answers 12 \<lparr>http_status = 200, body_json = Settles 3 (Inl parse_failure)\<rparr>))
        0 n8n)
     = Some (Some ''Unexpected token < in JSON at position 0'')"
proof -
  have p: "ename parse_failure = ''SyntaxError''"
    "emessage parse_failure = ''Unexpected token < in JSON at position 0''"
    by (simp_all add: parse_failure_def)
  show ?thesis
    using C10_unparseable_body
        [where net = "with_reply (Answers 12 \<lparr>http_status = 200,
                                   body_json = Settles 3 (Inl parse_failure)\<rparr>)"
           and svc = n8n and now = 0 and t = 12 and d = 3 and e = parse_failure
           and r = "\<lparr>http_status = 200, body_json = Settles 3 (Inl parse_failure)\<rparr>"] p
    by (simp add: probe_inputs response_ok_def)
qed

section \<open>Refreshing all services\<close>













lemma refresh_stalled_probe:
  "stalls (probes env (health news_podcaster) now) \<Longrightarrow>
     refreshAll env now s = Hangs (s\<lparr>isRefreshing := True\<rparr>)"
  using probe_stalls [of "probes env" news_podcaster now]
  by (simp add: refreshAll_def SERVICES_def Let_def)








end
